theory Spec2Isabelle
  imports Main
begin

section \<open>Merch Mockup AI: the image-request lifecycle controller\<close>

text \<open>
  The development embeds the two source files of the repository: the encoding utility
  \<^verbatim>\<open>utils/fileUtils.ts\<close> (\<open>fileToBase64\<close>, \<open>getMimeType\<close>) and the component
  \<open>App\<close> with its handlers \<open>handleLogoChange\<close>, \<open>handleGenerate\<close> and \<open>handleEdit\<close>
  and the attributes of its rendered controls.

  JavaScript strings are modelled as \<open>string\<close>. The code compares strings with ASCII
  literals, tests them for emptiness, tests an ASCII prefix and splits at the ASCII comma;
  all of these agree on UTF-16 code units and on UTF-8 bytes.
\<close>

subsection \<open>Values thrown and caught\<close>

text \<open>
  A promise rejects with, and \<^verbatim>\<open>catch (e)\<close> receives, an arbitrary JavaScript value. The
  handlers look at it only through \<^verbatim>\<open>e instanceof Error ? e.message : '...'\<close>, so a thrown
  value is either an \<open>Error\<close> object with its message or something that is no \<open>Error\<close>.
  The \<^verbatim>\<open>console.error(e)\<close> of the \<^verbatim>\<open>catch\<close> branches writes to the console only and is
  left out.
\<close>

datatype thrown = JsError string | NotAnError

text \<open>The expression of lines 67 and 90 of the component.\<close>

definition catch_message :: "thrown \<Rightarrow> string" where
  "catch_message e = (case e of JsError m \<Rightarrow> m | NotAnError \<Rightarrow> ''An unknown error occurred.'')"

subsection \<open>The encoding utility\<close>

text \<open>
  \<^verbatim>\<open>s.split(',')\<close>: the pieces of \<open>s\<close> between the separators, in order; a string without
  separator is its own single piece. \<open>acc\<close> holds the current piece, reversed.
\<close>

fun split_acc :: "char \<Rightarrow> string \<Rightarrow> string \<Rightarrow> string list" where
  "split_acc sep acc [] = [rev acc]"
| "split_acc sep acc (c # cs) =
     (if c = sep then rev acc # split_acc sep [] cs else split_acc sep (c # acc) cs)"

definition js_split :: "string \<Rightarrow> char \<Rightarrow> string list" where
  "js_split s sep = split_acc sep [] s"

text \<open>
  \<^verbatim>\<open>xs[1]\<close> on an array: the second element, or \<^verbatim>\<open>undefined\<close> (here \<open>None\<close>) when the
  array has fewer than two.
\<close>

fun index1 :: "'a list \<Rightarrow> 'a option" where
  "index1 (x # y # ys) = Some y"
| "index1 xs = None"

text \<open>
  A \<open>File\<close> of the browser; the code reads only its declared type (\<^verbatim>\<open>logo.type\<close>) and
  hands the file to a \<open>FileReader\<close>.
\<close>

record js_file =
  file_name :: string
  file_type :: string

text \<open>
  What the \<open>FileReader\<close> reports for \<^verbatim>\<open>readAsDataURL(file)\<close>: the \<open>load\<close> event with
  \<^verbatim>\<open>reader.result\<close> (\<open>Some s\<close> when it is a string, \<open>None\<close> when it is not), or the
  \<open>error\<close> event. The reader belongs to the browser, so it is a parameter of the model.
\<close>

datatype reader_event = OnLoad "string option" | OnError

type_synonym file_reader = "js_file \<Rightarrow> reader_event"

text \<open>
  \<open>fileToBase64\<close>: \<open>Inr\<close> is the value the promise resolves with, \<open>Inl\<close> the value it
  rejects with. The resolved value is \<^verbatim>\<open>reader.result.split(',')[1]\<close>, which is
  \<^verbatim>\<open>undefined\<close> (\<open>None\<close>) for a result without comma. The \<open>error\<close> handler rejects with
  the event it receives, which is no \<open>Error\<close> object.
\<close>

definition fileToBase64 :: "file_reader \<Rightarrow> js_file \<Rightarrow> thrown + string option" where
  "fileToBase64 reader f =
     (case reader f of
        OnLoad (Some result) \<Rightarrow> Inr (index1 (js_split result CHR '',''))
      | OnLoad None \<Rightarrow> Inl (JsError ''Failed to read file as base64 string.'')
      | OnError \<Rightarrow> Inl NotAnError)"

text \<open>\<open>getMimeType\<close>: the \<^verbatim>\<open>switch\<close> in the order of its cases; \<open>None\<close> is \<^verbatim>\<open>null\<close>.\<close>

definition getMimeType :: "string \<Rightarrow> string option" where
  "getMimeType fileType =
     (if fileType = ''image/png'' then Some ''image/png''
      else if fileType = ''image/jpeg'' then Some ''image/jpeg''
      else if fileType = ''image/webp'' then Some ''image/webp''
      else None)"

subsection \<open>The external capabilities\<close>

text \<open>
  \<open>generateImage\<close> and \<open>editImage\<close> are imported from the service module and are
  parameters of the model: a function from the three arguments to the settled promise,
  \<open>Inr\<close> the resolved image string, \<open>Inl\<close> the rejection. The first argument is the
  result of \<^verbatim>\<open>split(',')[1]\<close>, so it may be \<^verbatim>\<open>undefined\<close> (\<open>None\<close>).
\<close>

type_synonym capability = "string option \<Rightarrow> string \<Rightarrow> string \<Rightarrow> thrown + string"

text \<open>The trace of a handler: the capability invocations it makes, with their arguments.\<close>

datatype capability_call =
    GenerateImage "string option" string string
  | EditImage "string option" string string

subsection \<open>The state of the component\<close>

text \<open>
  Modelled from the spec: the type \<open>Status\<close> is imported from a module that is not part
  of the sources; the specification gives RequestStatus as one of idle, generating,
  editing, success, error, which are also the five literals the component uses.
\<close>

datatype Status = Idle | Generating | Editing | Success | Error

text \<open>
  The seven \<^verbatim>\<open>useState\<close> cells of \<open>App\<close> (lines 25 to 31). \<open>None\<close> is \<^verbatim>\<open>null\<close>; in
  \<open>logoPreview\<close> it also stands for \<^verbatim>\<open>undefined\<close>, which the component does not tell
  apart from \<^verbatim>\<open>null\<close> (it only tests the cell for truthiness).
\<close>

record app_state =
  logo :: "js_file option"
  logoPreview :: "string option"
  productDescription :: string
  editPrompt :: string
  generatedImage :: "string option"
  status :: Status
  error :: "string option"

definition initial_state :: app_state where
  "initial_state =
     \<lparr>logo = None, logoPreview = None, productDescription = ''a white t-shirt'',
      editPrompt = [], generatedImage = None, status = Idle, error = None\<rparr>"

subsection \<open>The handlers\<close>

text \<open>
  A handler is a function from the state at the time of the call to the state once the
  handler has run to its end, paired with the capability calls it made. The setters are
  applied in program order. Each handler awaits at most one capability; the state while
  it awaits is the one its \<open>begin\<close> part leaves, and its \<open>settle\<close> part is what runs
  after the \<^verbatim>\<open>await\<close>, in the \<^verbatim>\<open>try\<close> or in the \<^verbatim>\<open>catch\<close> branch.
\<close>

text \<open>
  \<open>handleLogoChange\<close>; the argument is \<^verbatim>\<open>event.target.files?.[0]\<close>. When
  \<open>fileToBase64\<close> rejects, the handler's promise rejects at the \<^verbatim>\<open>await\<close> of line 38
  and lines 39 to 41 do not run.
\<close>

definition handleLogoChange :: "file_reader \<Rightarrow> js_file option \<Rightarrow> app_state \<Rightarrow> app_state" where
  "handleLogoChange reader selected s =
     (case selected of
        None \<Rightarrow> s
      | Some f \<Rightarrow>
          (let s1 = s\<lparr>logo := Some f\<rparr> in
           case fileToBase64 reader f of
             Inl e \<Rightarrow> s1
           | Inr preview \<Rightarrow> s1\<lparr>logoPreview := preview, generatedImage := None, error := None\<rparr>))"

text \<open>The condition of line 46: \<^verbatim>\<open>!logo || !productDescription\<close>.\<close>

definition generate_rejected :: "app_state \<Rightarrow> bool" where
  "generate_rejected s = (logo s = None \<or> productDescription s = [])"

text \<open>Lines 51 to 53.\<close>

definition generate_begin :: "app_state \<Rightarrow> app_state" where
  "generate_begin s = s\<lparr>status := Generating, error := None, generatedImage := None\<rparr>"

text \<open>
  Lines 56 to 62, the body of the \<^verbatim>\<open>try\<close> up to the result of \<open>generateImage\<close>: what
  it yields or throws, and the capability calls made.
\<close>

definition generate_try ::
  "file_reader \<Rightarrow> capability \<Rightarrow> js_file \<Rightarrow> string \<Rightarrow> (thrown + string) \<times> capability_call list" where
  "generate_try reader generateImage f description =
     (case fileToBase64 reader f of
        Inl e \<Rightarrow> (Inl e, [])
      | Inr logoBase64 \<Rightarrow>
          (case getMimeType (file_type f) of
             None \<Rightarrow> (Inl (JsError ''Unsupported file type.''), [])
           | Some mimeType \<Rightarrow>
               (generateImage logoBase64 mimeType description,
                [GenerateImage logoBase64 mimeType description])))"

text \<open>Lines 63 to 64 on a result, lines 67 to 68 on a thrown value.\<close>

definition generate_settle :: "thrown + string \<Rightarrow> app_state \<Rightarrow> app_state" where
  "generate_settle r s =
     (case r of
        Inr result \<Rightarrow> s\<lparr>generatedImage := Some result, status := Success\<rparr>
      | Inl e \<Rightarrow> s\<lparr>error := Some (catch_message e), status := Error\<rparr>)"

definition handleGenerate ::
  "file_reader \<Rightarrow> capability \<Rightarrow> app_state \<Rightarrow> app_state \<times> capability_call list" where
  "handleGenerate reader generateImage s =
     (case logo s of
        None \<Rightarrow> (s\<lparr>error := Some ''Please upload a logo and provide a product description.''\<rparr>, [])
      | Some f \<Rightarrow>
          if productDescription s = []
          then (s\<lparr>error := Some ''Please upload a logo and provide a product description.''\<rparr>, [])
          else (case generate_try reader generateImage f (productDescription s) of
                  (r, calls) \<Rightarrow> (generate_settle r (generate_begin s), calls)))"

text \<open>\<^verbatim>\<open>s.startsWith(p)\<close>.\<close>

definition startsWith :: "string \<Rightarrow> string \<Rightarrow> bool" where
  "startsWith s p = (take (length p) s = p)"

text \<open>
  The condition of line 73: \<^verbatim>\<open>!generatedImage || !editPrompt\<close>; \<^verbatim>\<open>null\<close> and the empty
  string are the falsy values of the two cells.
\<close>

definition edit_rejected :: "app_state \<Rightarrow> bool" where
  "edit_rejected s = (generatedImage s = None \<or> generatedImage s = Some [] \<or> editPrompt s = [])"

text \<open>Lines 78 to 79.\<close>

definition edit_begin :: "app_state \<Rightarrow> app_state" where
  "edit_begin s = s\<lparr>status := Editing, error := None\<rparr>"

text \<open>Lines 82 to 84.\<close>

definition edit_try ::
  "capability \<Rightarrow> string \<Rightarrow> string \<Rightarrow> (thrown + string) \<times> capability_call list" where
  "edit_try editImage current prompt =
     (let mimeType = (if startsWith current ''data:image/jpeg'' then ''image/jpeg'' else ''image/png'');
          base64Data = index1 (js_split current CHR '','')
      in (editImage base64Data mimeType prompt, [EditImage base64Data mimeType prompt]))"

text \<open>Lines 85 to 87 on a result, lines 90 to 91 on a thrown value.\<close>

definition edit_settle :: "thrown + string \<Rightarrow> app_state \<Rightarrow> app_state" where
  "edit_settle r s =
     (case r of
        Inr result \<Rightarrow> s\<lparr>generatedImage := Some result, editPrompt := [], status := Success\<rparr>
      | Inl e \<Rightarrow> s\<lparr>error := Some (catch_message e), status := Error\<rparr>)"

definition handleEdit :: "capability \<Rightarrow> app_state \<Rightarrow> app_state \<times> capability_call list" where
  "handleEdit editImage s =
     (case generatedImage s of
        None \<Rightarrow> (s\<lparr>error := Some ''Please generate an image and provide an edit prompt.''\<rparr>, [])
      | Some current \<Rightarrow>
          if current = [] \<or> editPrompt s = []
          then (s\<lparr>error := Some ''Please generate an image and provide an edit prompt.''\<rparr>, [])
          else (case edit_try editImage current (editPrompt s) of
                  (r, calls) \<Rightarrow> (edit_settle r (edit_begin s), calls)))"

subsection \<open>The rendered controls\<close>

text \<open>Line 105.\<close>

definition isLoading :: "app_state \<Rightarrow> bool" where
  "isLoading s = (status s = Generating \<or> status s = Editing)"

text \<open>The \<^verbatim>\<open>disabled\<close> attribute of the Generate button, line 167.\<close>

definition generate_button_disabled :: "app_state \<Rightarrow> bool" where
  "generate_button_disabled s = (logo s = None \<or> productDescription s = [] \<or> isLoading s)"

text \<open>
  The output panel (lines 179 to 220) shows the spinner while \<open>isLoading\<close>; the image with
  the edit input and the Apply button is rendered only otherwise, and only for a truthy
  \<open>generatedImage\<close>.
\<close>

definition edit_controls_rendered :: "app_state \<Rightarrow> bool" where
  "edit_controls_rendered s =
     (case generatedImage s of None \<Rightarrow> False | Some current \<Rightarrow> \<not> isLoading s \<and> current \<noteq> [])"

text \<open>The \<^verbatim>\<open>disabled\<close> attribute of the Apply button, line 207.\<close>

definition apply_button_disabled :: "app_state \<Rightarrow> bool" where
  "apply_button_disabled s = (editPrompt s = [] \<or> isLoading s)"

text \<open>
  A click of the user: the browser delivers no \<^verbatim>\<open>click\<close> to a disabled button nor to one
  that is not in the document, and otherwise runs the \<^verbatim>\<open>onClick\<close> handler (lines 166
  and 206).
\<close>

definition click_generate ::
  "file_reader \<Rightarrow> capability \<Rightarrow> app_state \<Rightarrow> app_state \<times> capability_call list" where
  "click_generate reader generateImage s =
     (if generate_button_disabled s then (s, []) else handleGenerate reader generateImage s)"

definition click_apply :: "capability \<Rightarrow> app_state \<Rightarrow> app_state \<times> capability_call list" where
  "click_apply editImage s =
     (if edit_controls_rendered s \<and> \<not> apply_button_disabled s
      then handleEdit editImage s else (s, []))"

subsection \<open>The session: handlers and their awaited promises\<close>

text \<open>
  The handlers are \<^verbatim>\<open>async\<close>: each runs up to an \<^verbatim>\<open>await\<close>, and the rest of it runs
  when the awaited promise settles, after whatever events came in between. A session is
  the state of the component together with the awaited promises that have not settled
  yet, each with what its continuation holds in its closure:
  \<^item> \<open>PreviewRead f\<close>: \<open>handleLogoChange\<close> at the \<^verbatim>\<open>await\<close> of line 38;
  \<^item> \<open>GenerateRead f d\<close>: \<open>handleGenerate\<close> at the \<^verbatim>\<open>await\<close> of line 56, called with
    logo \<open>f\<close> and description \<open>d\<close>;
  \<^item> \<open>GenerateAwait\<close>: \<open>handleGenerate\<close> at the \<^verbatim>\<open>await\<close> of line 62, \<open>generateImage\<close>
    invoked;
  \<^item> \<open>EditAwait\<close>: \<open>handleEdit\<close> at the \<^verbatim>\<open>await\<close> of line 84, \<open>editImage\<close> invoked.
  The list of tasks is not bounded: that no two requests are ever in it together is a
  theorem, not a part of the model.
\<close>

datatype task =
    PreviewRead js_file
  | GenerateRead js_file string
  | GenerateAwait
  | EditAwait

record session =
  ui :: app_state
  tasks :: "task list"

definition initial_session :: session where
  "initial_session = \<lparr>ui = initial_state, tasks = []\<rparr>"

text \<open>
  What can happen to the component: the user clicks Generate or Apply, chooses a file
  (or none) in the file input, types in the description or in the edit input; a
  \<open>FileReader\<close> fires its event; a capability's promise settles.
\<close>

datatype event =
    ClickGenerate
  | ClickApply
  | SelectLogo "js_file option"
  | TypeDescription string
  | TypeEditPrompt string
  | FileRead task reader_event
  | CapabilitySettled task "thrown + string"

fun is_user_event :: "event \<Rightarrow> bool" where
  "is_user_event (FileRead t ev) = False"
| "is_user_event (CapabilitySettled t r) = False"
| "is_user_event e = True"

text \<open>
  A request is a run of \<open>handleGenerate\<close> or \<open>handleEdit\<close> that has passed its validation
  and has not settled; it is invoked once it has called its capability.
\<close>

fun is_request :: "task \<Rightarrow> bool" where
  "is_request (PreviewRead f) = False"
| "is_request t = True"

fun is_invoked :: "task \<Rightarrow> bool" where
  "is_invoked GenerateAwait = True"
| "is_invoked EditAwait = True"
| "is_invoked t = False"

definition requests :: "session \<Rightarrow> task list" where
  "requests \<sigma> = filter is_request (tasks \<sigma>)"

definition invoked :: "session \<Rightarrow> task list" where
  "invoked \<sigma> = filter is_invoked (tasks \<sigma>)"

text \<open>
  Lines 56 to 62 once the \<open>FileReader\<close> has fired \<open>ev\<close>: the value thrown, or the call
  of \<open>generateImage\<close> that is made.
\<close>

definition generate_prepare :: "reader_event \<Rightarrow> js_file \<Rightarrow> string \<Rightarrow> thrown + capability_call" where
  "generate_prepare ev f description =
     (case fileToBase64 (\<lambda>_. ev) f of
        Inl e \<Rightarrow> Inl e
      | Inr logoBase64 \<Rightarrow>
          (case getMimeType (file_type f) of
             None \<Rightarrow> Inl (JsError ''Unsupported file type.'')
           | Some mimeType \<Rightarrow> Inr (GenerateImage logoBase64 mimeType description)))"

text \<open>Lines 82 to 84: the call of \<open>editImage\<close> that is made.\<close>

definition edit_prepare :: "string \<Rightarrow> string \<Rightarrow> capability_call" where
  "edit_prepare current prompt =
     (let mimeType = (if startsWith current ''data:image/jpeg'' then ''image/jpeg'' else ''image/png'');
          base64Data = index1 (js_split current CHR '','')
      in EditImage base64Data mimeType prompt)"

text \<open>\<open>handleGenerate\<close> up to its first \<^verbatim>\<open>await\<close> (lines 46 to 56).\<close>

definition start_generate :: "session \<Rightarrow> session \<times> capability_call list" where
  "start_generate \<sigma> =
     (case logo (ui \<sigma>) of
        None \<Rightarrow>
          (\<sigma>\<lparr>ui := (ui \<sigma>)\<lparr>error :=
             Some ''Please upload a logo and provide a product description.''\<rparr>\<rparr>, [])
      | Some f \<Rightarrow>
          if productDescription (ui \<sigma>) = []
          then (\<sigma>\<lparr>ui := (ui \<sigma>)\<lparr>error :=
                  Some ''Please upload a logo and provide a product description.''\<rparr>\<rparr>, [])
          else (\<lparr>ui = generate_begin (ui \<sigma>),
                 tasks = GenerateRead f (productDescription (ui \<sigma>)) # tasks \<sigma>\<rparr>, []))"

text \<open>\<open>handleEdit\<close> up to its \<^verbatim>\<open>await\<close> (lines 73 to 84).\<close>

definition start_edit :: "session \<Rightarrow> session \<times> capability_call list" where
  "start_edit \<sigma> =
     (case generatedImage (ui \<sigma>) of
        None \<Rightarrow>
          (\<sigma>\<lparr>ui := (ui \<sigma>)\<lparr>error :=
             Some ''Please generate an image and provide an edit prompt.''\<rparr>\<rparr>, [])
      | Some current \<Rightarrow>
          if current = [] \<or> editPrompt (ui \<sigma>) = []
          then (\<sigma>\<lparr>ui := (ui \<sigma>)\<lparr>error :=
                  Some ''Please generate an image and provide an edit prompt.''\<rparr>\<rparr>, [])
          else (\<lparr>ui = edit_begin (ui \<sigma>), tasks = EditAwait # tasks \<sigma>\<rparr>,
                [edit_prepare current (editPrompt (ui \<sigma>))]))"

text \<open>
  The \<open>FileReader\<close> of task \<open>t\<close> fires \<open>ev\<close>: \<open>handleLogoChange\<close> goes on with lines 39
  to 41, or stops when the read has failed; \<open>handleGenerate\<close> goes on to the call of line
  62, or to its \<^verbatim>\<open>catch\<close> branch. The setters act on the state as it is by then.
\<close>

definition file_read :: "task \<Rightarrow> reader_event \<Rightarrow> session \<Rightarrow> session \<times> capability_call list" where
  "file_read t ev \<sigma> =
     (case t of
        PreviewRead f \<Rightarrow>
          (case fileToBase64 (\<lambda>_. ev) f of
             Inl e \<Rightarrow> (\<sigma>\<lparr>tasks := remove1 t (tasks \<sigma>)\<rparr>, [])
           | Inr preview \<Rightarrow>
               (\<lparr>ui = (ui \<sigma>)\<lparr>logoPreview := preview, generatedImage := None, error := None\<rparr>,
                 tasks = remove1 t (tasks \<sigma>)\<rparr>, []))
      | GenerateRead f description \<Rightarrow>
          (case generate_prepare ev f description of
             Inl e \<Rightarrow>
               (\<lparr>ui = generate_settle (Inl e) (ui \<sigma>), tasks = remove1 t (tasks \<sigma>)\<rparr>, [])
           | Inr call \<Rightarrow> (\<sigma>\<lparr>tasks := GenerateAwait # remove1 t (tasks \<sigma>)\<rparr>, [call]))
      | GenerateAwait \<Rightarrow> (\<sigma>, [])
      | EditAwait \<Rightarrow> (\<sigma>, []))"

text \<open>The capability awaited by task \<open>t\<close> settles with \<open>r\<close>.\<close>

definition capability_settled ::
  "task \<Rightarrow> thrown + string \<Rightarrow> session \<Rightarrow> session \<times> capability_call list" where
  "capability_settled t r \<sigma> =
     (case t of
        GenerateAwait \<Rightarrow> (\<lparr>ui = generate_settle r (ui \<sigma>), tasks = remove1 t (tasks \<sigma>)\<rparr>, [])
      | EditAwait \<Rightarrow> (\<lparr>ui = edit_settle r (ui \<sigma>), tasks = remove1 t (tasks \<sigma>)\<rparr>, [])
      | PreviewRead f \<Rightarrow> (\<sigma>, [])
      | GenerateRead f description \<Rightarrow> (\<sigma>, []))"

text \<open>
  One event: the session after it and the capability calls made in it. A click reaches
  its handler as in \<open>click_generate\<close> and \<open>click_apply\<close>. The file input (lines 128 to
  134) is never disabled. The description (lines 154 to 162) and the edit input (lines
  196 to 204) are disabled while \<open>isLoading\<close>, and the edit input is rendered with the
  Apply button only. The event of a promise that is not awaited does not occur.
\<close>

fun step :: "event \<Rightarrow> session \<Rightarrow> session \<times> capability_call list" where
  "step ClickGenerate \<sigma> =
     (if generate_button_disabled (ui \<sigma>) then (\<sigma>, []) else start_generate \<sigma>)"
| "step ClickApply \<sigma> =
     (if edit_controls_rendered (ui \<sigma>) \<and> \<not> apply_button_disabled (ui \<sigma>)
      then start_edit \<sigma> else (\<sigma>, []))"
| "step (SelectLogo None) \<sigma> = (\<sigma>, [])"
| "step (SelectLogo (Some f)) \<sigma> =
     (\<lparr>ui = (ui \<sigma>)\<lparr>logo := Some f\<rparr>, tasks = PreviewRead f # tasks \<sigma>\<rparr>, [])"
| "step (TypeDescription v) \<sigma> =
     (if isLoading (ui \<sigma>) then (\<sigma>, [])
      else (\<sigma>\<lparr>ui := (ui \<sigma>)\<lparr>productDescription := v\<rparr>\<rparr>, []))"
| "step (TypeEditPrompt v) \<sigma> =
     (if edit_controls_rendered (ui \<sigma>) \<and> \<not> isLoading (ui \<sigma>)
      then (\<sigma>\<lparr>ui := (ui \<sigma>)\<lparr>editPrompt := v\<rparr>\<rparr>, []) else (\<sigma>, []))"
| "step (FileRead t ev) \<sigma> = (if t \<in> set (tasks \<sigma>) then file_read t ev \<sigma> else (\<sigma>, []))"
| "step (CapabilitySettled t r) \<sigma> =
     (if t \<in> set (tasks \<sigma>) then capability_settled t r \<sigma> else (\<sigma>, []))"

text \<open>A sequence of events: the session it leads to and all capability calls made.\<close>

fun run :: "event list \<Rightarrow> session \<Rightarrow> session \<times> capability_call list" where
  "run [] \<sigma> = (\<sigma>, [])"
| "run (ev # evs) \<sigma> =
     (fst (run evs (fst (step ev \<sigma>))),
      snd (step ev \<sigma>) @ snd (run evs (fst (step ev \<sigma>))))"

text \<open>
  At most one request is under way, and the status is generating or editing exactly
  when one is.
\<close>

definition single_flight :: "session \<Rightarrow> bool" where
  "single_flight \<sigma> =
     (length (requests \<sigma>) \<le> 1 \<and> isLoading (ui \<sigma>) = (requests \<sigma> \<noteq> []))"

subsection \<open>Sample inputs\<close>

text \<open>Concrete files, readers, capabilities and states at which the theorems are exercised.\<close>

definition png_file :: js_file where
  "png_file = \<lparr>file_name = ''logo.png'', file_type = ''image/png''\<rparr>"

definition gif_file :: js_file where
  "gif_file = \<lparr>file_name = ''logo.gif'', file_type = ''image/gif''\<rparr>"

definition webp_file :: js_file where
  "webp_file = \<lparr>file_name = ''logo.webp'', file_type = ''image/webp''\<rparr>"

definition good_reader :: file_reader where
  "good_reader f = OnLoad (Some (''data:'' @ file_type f @ '';base64,iVBORw0KGgo=''))"

definition broken_reader :: file_reader where
  "broken_reader f = OnError"

definition good_capability :: capability where
  "good_capability payload mimeType prompt = Inr ''data:image/png;base64,TU9DS1VQ''"

definition bad_capability :: capability where
  "bad_capability payload mimeType prompt = Inl (JsError ''The model is overloaded.'')"

text \<open>A PNG logo chosen, nothing generated yet.\<close>

definition png_chosen :: app_state where
  "png_chosen = initial_state\<lparr>logo := Some png_file, logoPreview := Some ''iVBORw0KGgo=''\<rparr>"

text \<open>A GIF logo chosen, nothing generated yet.\<close>

definition gif_chosen :: app_state where
  "gif_chosen = initial_state\<lparr>logo := Some gif_file, logoPreview := Some ''iVBORw0KGgo=''\<rparr>"

text \<open>After a successful generation, with an edit instruction typed in.\<close>

definition mockup_shown :: app_state where
  "mockup_shown =
     png_chosen\<lparr>generatedImage := Some ''data:image/png;base64,TU9DS1VQ'',
                 editPrompt := ''add a retro filter'', status := Success\<rparr>"

text \<open>The same with a JPEG result.\<close>

definition jpeg_shown :: app_state where
  "jpeg_shown = mockup_shown\<lparr>generatedImage := Some ''data:image/jpeg;base64,/9j/4AAQ''\<rparr>"

text \<open>After a failed edit: the image and the message of the failure are both on screen.\<close>

definition edit_failed :: app_state where
  "edit_failed = mockup_shown\<lparr>status := Error, error := Some ''The model is overloaded.''\<rparr>"


text \<open>
  A PNG logo chosen and read, Generate clicked: the request awaits the \<open>FileReader\<close>.
\<close>

definition generating_session :: session where
  "generating_session =
     \<lparr>ui = generate_begin png_chosen, tasks = [GenerateRead png_file ''a white t-shirt'']\<rparr>"

section \<open>Properties\<close>

text \<open>The definitions of the sample inputs, unfolded when a theorem is exercised at them.\<close>

lemmas sample_defs =
  initial_state_def png_file_def gif_file_def webp_file_def good_reader_def broken_reader_def
  good_capability_def bad_capability_def png_chosen_def gif_chosen_def mockup_shown_def
  jpeg_shown_def edit_failed_def

subsection \<open>The encoding utility\<close>

text \<open>
  C5. For every declared media-type string, \<open>getMimeType\<close> returns an allow-listed tag
  exactly when the input is one of \<open>image/png\<close>, \<open>image/jpeg\<close>, \<open>image/webp\<close> (and
  then it returns that very string), and returns \<^verbatim>\<open>null\<close> for every other input. As
  a HOL function of its argument alone it has no effect besides its value.
\<close>

theorem getMimeType_allow_list:
  "getMimeType t =
     (if t = ''image/png'' \<or> t = ''image/jpeg'' \<or> t = ''image/webp'' then Some t else None)"
  by (simp add: getMimeType_def)

subsection \<open>Generate requests\<close>

text \<open>
  C6. A call of \<open>handleGenerate\<close> with an absent logo or an empty product description
  invokes no capability, sets the error message to the validation message of line 47 and
  changes no other cell of the state; in particular the status stays as it was.
\<close>

theorem handleGenerate_precondition:
  assumes "logo s = None \<or> productDescription s = []"
  shows "handleGenerate reader generateImage s =
           (s\<lparr>error := Some ''Please upload a logo and provide a product description.''\<rparr>, []) \<and>
         status (fst (handleGenerate reader generateImage s)) = status s"
  using assms by (auto simp: handleGenerate_def split: option.splits)

theorem handleGenerate_precondition_witness:
  "logo initial_state = None \<and>
   snd (handleGenerate good_reader good_capability initial_state) = [] \<and>
   error (fst (handleGenerate good_reader good_capability initial_state)) =
     Some ''Please upload a logo and provide a product description.'' \<and>
   status (fst (handleGenerate good_reader good_capability initial_state)) = Idle"
  using handleGenerate_precondition [of initial_state good_reader good_capability]
  by (simp add: initial_state_def)

text \<open>
  The data URL of a \<open>FileReader\<close> is a header, a comma and the base64 text; neither the
  header nor base64 text contains a comma, and \<^verbatim>\<open>split(',')[1]\<close> is then the base64 text.
\<close>

lemma split_acc_tail:
  "sep \<notin> set cs \<Longrightarrow> split_acc sep acc cs = [rev acc @ cs]"
  by (induction cs arbitrary: acc) auto

lemma split_acc_head:
  "sep \<notin> set header \<Longrightarrow>
   split_acc sep acc (header @ sep # rest) = (rev acc @ header) # split_acc sep [] rest"
  by (induction header arbitrary: acc) auto

lemma data_url_payload:
  assumes "CHR '','' \<notin> set header" and "CHR '','' \<notin> set payload"
  shows "index1 (js_split (header @ '','' @ payload) CHR '','') = Some payload"
  using assms by (simp add: js_split_def split_acc_head split_acc_tail)

text \<open>
  C4, as the code has it. A call of \<open>handleGenerate\<close> with a logo of declared type
  \<open>image/png\<close> and a non-empty product description reads the file first. When the
  \<open>FileReader\<close> delivers the data URL \<open>header,payload\<close>, \<open>generateImage\<close> is invoked
  exactly once, with \<open>payload\<close>, \<open>image/png\<close> and the description; if that call resolves
  with \<open>result\<close>, the generated image is \<open>result\<close> and the status is success (and the
  error message is cleared). When the read fails, the \<^verbatim>\<open>catch\<close> branch ends the request:
  no capability is invoked, the status is error and the error message is that of the
  failure.
\<close>

theorem handleGenerate_png:
  assumes "logo s = Some f" and "file_type f = ''image/png''"
    and "productDescription s \<noteq> []"
  shows "(\<forall>header payload.
            reader f = OnLoad (Some (header @ '','' @ payload)) \<and>
            CHR '','' \<notin> set header \<and> CHR '','' \<notin> set payload \<longrightarrow>
              snd (handleGenerate reader generateImage s) =
                [GenerateImage (Some payload) ''image/png'' (productDescription s)] \<and>
              (\<forall>result.
                 generateImage (Some payload) ''image/png'' (productDescription s) = Inr result \<longrightarrow>
                   fst (handleGenerate reader generateImage s) =
                     s\<lparr>status := Success, error := None, generatedImage := Some result\<rparr>)) \<and>
         (\<forall>e. fileToBase64 reader f = Inl e \<longrightarrow>
            handleGenerate reader generateImage s =
              (s\<lparr>status := Error, error := Some (catch_message e), generatedImage := None\<rparr>, []))"
proof -
  have ok: "snd (handleGenerate reader generateImage s) =
                [GenerateImage (Some payload) ''image/png'' (productDescription s)] \<and>
              (\<forall>result.
                 generateImage (Some payload) ''image/png'' (productDescription s) = Inr result \<longrightarrow>
                   fst (handleGenerate reader generateImage s) =
                     s\<lparr>status := Success, error := None, generatedImage := Some result\<rparr>)"
    if r: "reader f = OnLoad (Some (header @ '','' @ payload))"
      and h: "CHR '','' \<notin> set header" and p: "CHR '','' \<notin> set payload"
    for header payload
  proof -
    from r data_url_payload [OF h p]
    have "fileToBase64 reader f = Inr (Some payload)"
      by (simp add: fileToBase64_def)
    with assms show ?thesis
      by (simp add: handleGenerate_def generate_try_def getMimeType_def generate_settle_def
          generate_begin_def)
  qed
  have bad: "handleGenerate reader generateImage s =
              (s\<lparr>status := Error, error := Some (catch_message e), generatedImage := None\<rparr>, [])"
    if "fileToBase64 reader f = Inl e" for e
    using that assms
    by (simp add: handleGenerate_def generate_try_def generate_settle_def generate_begin_def)
  from ok bad show ?thesis by blast
qed

theorem handleGenerate_png_witness:
  "logo png_chosen = Some png_file \<and> file_type png_file = ''image/png'' \<and>
   productDescription png_chosen \<noteq> [] \<and>
   good_reader png_file = OnLoad (Some (''data:image/png;base64'' @ '','' @ ''iVBORw0KGgo='')) \<and>
   CHR '','' \<notin> set ''data:image/png;base64'' \<and> CHR '','' \<notin> set ''iVBORw0KGgo='' \<and>
   good_capability (Some ''iVBORw0KGgo='') ''image/png'' ''a white t-shirt'' =
     Inr ''data:image/png;base64,TU9DS1VQ'' \<and>
   snd (handleGenerate good_reader good_capability png_chosen) =
     [GenerateImage (Some ''iVBORw0KGgo='') ''image/png'' ''a white t-shirt''] \<and>
   generatedImage (fst (handleGenerate good_reader good_capability png_chosen)) =
     Some ''data:image/png;base64,TU9DS1VQ'' \<and>
   status (fst (handleGenerate good_reader good_capability png_chosen)) = Success \<and>
   fileToBase64 broken_reader png_file = Inl NotAnError \<and>
   snd (handleGenerate broken_reader good_capability png_chosen) = [] \<and>
   status (fst (handleGenerate broken_reader good_capability png_chosen)) = Error \<and>
   error (fst (handleGenerate broken_reader good_capability png_chosen)) =
     Some ''An unknown error occurred.''"
proof -
  have a: "logo png_chosen = Some png_file"
    and b: "file_type png_file = ''image/png''"
    and c: "productDescription png_chosen \<noteq> []"
    and d: "productDescription png_chosen = ''a white t-shirt''"
    by (simp_all add: sample_defs)
  have r: "good_reader png_file = OnLoad (Some (''data:image/png;base64'' @ '','' @ ''iVBORw0KGgo=''))"
    by (simp add: sample_defs)
  have h: "CHR '','' \<notin> set ''data:image/png;base64''" and p: "CHR '','' \<notin> set ''iVBORw0KGgo=''"
    by simp_all
  have g: "good_capability (Some ''iVBORw0KGgo='') ''image/png'' ''a white t-shirt'' =
     Inr ''data:image/png;base64,TU9DS1VQ''"
    by (simp add: good_capability_def)
  have x: "fileToBase64 broken_reader png_file = Inl NotAnError"
    by (simp add: fileToBase64_def broken_reader_def)
  have m: "catch_message NotAnError = ''An unknown error occurred.''"
    by (simp add: catch_message_def)
  note t = handleGenerate_png [OF a b c]
  from t [of good_reader good_capability] r h p g d
  have 1: "snd (handleGenerate good_reader good_capability png_chosen) =
     [GenerateImage (Some ''iVBORw0KGgo='') ''image/png'' ''a white t-shirt'']"
    and 2: "fst (handleGenerate good_reader good_capability png_chosen) =
      png_chosen\<lparr>status := Success, error := None,
                  generatedImage := Some ''data:image/png;base64,TU9DS1VQ''\<rparr>"
    by metis+
  from t [of broken_reader good_capability] x
  have 3: "handleGenerate broken_reader good_capability png_chosen =
     (png_chosen\<lparr>status := Error, error := Some (catch_message NotAnError),
                  generatedImage := None\<rparr>, [])"
    by blast
  from a b c r h p g x 1 show ?thesis
    by (simp add: 2 3 m)
qed

text \<open>
  C4 as stated fails: a PNG logo and the description \<open>a white t-shirt\<close>, but the
  \<open>FileReader\<close> reports an error; \<open>generateImage\<close> is not invoked and the request ends in
  status error.
\<close>

theorem handleGenerate_png_counterexample:
  "logo png_chosen = Some png_file \<and> file_type png_file = ''image/png'' \<and>
   productDescription png_chosen = ''a white t-shirt'' \<and>
   snd (handleGenerate broken_reader good_capability png_chosen) = [] \<and>
   generatedImage (fst (handleGenerate broken_reader good_capability png_chosen)) = None \<and>
   status (fst (handleGenerate broken_reader good_capability png_chosen)) = Error"
  by (simp add: sample_defs handleGenerate_def generate_try_def generate_settle_def
      generate_begin_def fileToBase64_def)

text \<open>
  C1, as the code has it. A call of \<open>handleGenerate\<close> with a logo whose declared type is
  outside the allow-list: \<open>getMimeType\<close> returns \<^verbatim>\<open>null\<close> for the type, no capability
  is invoked and an error message is set. The status does not stay as it was: with a
  non-empty description the request has started (line 51) and the \<^verbatim>\<open>catch\<close> branch
  ends it with status error; only with an empty description, where the request is turned
  down at line 46, is the status unchanged. When the file could be read the message is
  the one thrown at line 59.
\<close>

theorem handleGenerate_unsupported_type:
  assumes "logo s = Some f"
    and "file_type f \<notin> {''image/png'', ''image/jpeg'', ''image/webp''}"
  shows "getMimeType (file_type f) = None \<and>
         snd (handleGenerate reader generateImage s) = [] \<and>
         error (fst (handleGenerate reader generateImage s)) \<noteq> None \<and>
         status (fst (handleGenerate reader generateImage s)) =
           (if productDescription s = [] then status s else Error) \<and>
         (\<forall>payload. productDescription s \<noteq> [] \<longrightarrow> fileToBase64 reader f = Inr payload \<longrightarrow>
            error (fst (handleGenerate reader generateImage s)) = Some ''Unsupported file type.'')"
proof -
  from assms(2) have m: "getMimeType (file_type f) = None"
    by (simp add: getMimeType_def)
  show ?thesis
    using assms(1) m
    by (simp add: handleGenerate_def generate_try_def generate_settle_def generate_begin_def
        catch_message_def split: sum.splits)
qed

theorem handleGenerate_unsupported_type_witness:
  "logo gif_chosen = Some gif_file \<and>
   file_type gif_file \<notin> {''image/png'', ''image/jpeg'', ''image/webp''} \<and>
   productDescription gif_chosen \<noteq> [] \<and>
   fileToBase64 good_reader gif_file = Inr (Some ''iVBORw0KGgo='') \<and>
   snd (handleGenerate good_reader good_capability gif_chosen) = [] \<and>
   error (fst (handleGenerate good_reader good_capability gif_chosen)) =
     Some ''Unsupported file type.'' \<and>
   status (fst (handleGenerate good_reader good_capability gif_chosen)) = Error"
proof -
  have a: "logo gif_chosen = Some gif_file"
    and b: "file_type gif_file \<notin> {''image/png'', ''image/jpeg'', ''image/webp''}"
    and c: "productDescription gif_chosen \<noteq> []"
    by (simp_all add: sample_defs)
  have p: "fileToBase64 good_reader gif_file = Inr (Some ''iVBORw0KGgo='')"
    by (simp add: sample_defs fileToBase64_def js_split_def)
  from handleGenerate_unsupported_type [OF a b, of good_reader good_capability] a b c p
  show ?thesis by simp
qed

text \<open>
  C1 as stated fails: with a GIF logo and the description \<open>a white t-shirt\<close>, a request
  made in status idle ends in status error.
\<close>

theorem handleGenerate_unsupported_type_counterexample:
  "logo gif_chosen = Some gif_file \<and>
   file_type gif_file = ''image/gif'' \<and>
   getMimeType (file_type gif_file) = None \<and>
   status gif_chosen = Idle \<and>
   status (fst (handleGenerate good_reader good_capability gif_chosen)) = Error"
  by (simp add: sample_defs handleGenerate_def generate_try_def generate_settle_def
      generate_begin_def fileToBase64_def getMimeType_def js_split_def)

subsection \<open>Edit requests\<close>

text \<open>
  C7. A call of \<open>handleEdit\<close> with an absent generated image or an empty edit instruction
  invokes no capability, sets the error message to the validation message of line 74 and
  changes no other cell of the state; in particular the status stays as it was.
\<close>

theorem handleEdit_precondition:
  assumes "generatedImage s = None \<or> editPrompt s = []"
  shows "handleEdit editImage s =
           (s\<lparr>error := Some ''Please generate an image and provide an edit prompt.''\<rparr>, []) \<and>
         status (fst (handleEdit editImage s)) = status s"
  using assms by (auto simp: handleEdit_def split: option.splits)

theorem handleEdit_precondition_witness:
  "generatedImage png_chosen = None \<and>
   snd (handleEdit good_capability png_chosen) = [] \<and>
   error (fst (handleEdit good_capability png_chosen)) =
     Some ''Please generate an image and provide an edit prompt.'' \<and>
   status (fst (handleEdit good_capability png_chosen)) = Idle"
  using handleEdit_precondition [of png_chosen good_capability]
  by (simp add: png_chosen_def initial_state_def)

text \<open>
  Either \<open>handleEdit\<close> makes no capability call, or the request passed line 73 and the
  handler is its three parts in sequence.
\<close>

lemma handleEdit_calls:
  "snd (handleEdit editImage s) = [] \<or>
   (\<exists>current. generatedImage s = Some current \<and> current \<noteq> [] \<and> editPrompt s \<noteq> [] \<and>
      handleEdit editImage s =
        (edit_settle (fst (edit_try editImage current (editPrompt s))) (edit_begin s),
         snd (edit_try editImage current (editPrompt s))))"
  by (auto simp: handleEdit_def split: option.splits prod.splits)

text \<open>
  C8. For an edit request that reaches the edit capability, with the call
  \<open>editImage payload mimeType prompt\<close>: if the call resolves with \<open>result\<close>, the generated
  image is \<open>result\<close>, the edit instruction is empty and the status is success; if it
  rejects with \<open>e\<close>, the status is error, the error message is the message taken from
  \<open>e\<close> (for an \<open>Error\<close> object its own message) and every other cell, the edit
  instruction among them, is as before.
\<close>

theorem handleEdit_outcome:
  assumes "snd (handleEdit editImage s) = [EditImage payload mimeType prompt]"
  shows "(\<forall>result. editImage payload mimeType prompt = Inr result \<longrightarrow>
            fst (handleEdit editImage s) =
              s\<lparr>status := Success, error := None, generatedImage := Some result, editPrompt := []\<rparr>) \<and>
         (\<forall>e. editImage payload mimeType prompt = Inl e \<longrightarrow>
            fst (handleEdit editImage s) = s\<lparr>status := Error, error := Some (catch_message e)\<rparr> \<and>
            editPrompt (fst (handleEdit editImage s)) = editPrompt s) \<and>
         (\<forall>message. editImage payload mimeType prompt = Inl (JsError message) \<longrightarrow>
            error (fst (handleEdit editImage s)) = Some message)"
proof -
  from assms handleEdit_calls [of editImage s]
  obtain current where h: "handleEdit editImage s =
        (edit_settle (fst (edit_try editImage current (editPrompt s))) (edit_begin s),
         snd (edit_try editImage current (editPrompt s)))"
    by auto
  from assms h
  have "snd (edit_try editImage current (editPrompt s)) = [EditImage payload mimeType prompt]"
    by simp
  then have r: "fst (edit_try editImage current (editPrompt s)) = editImage payload mimeType prompt"
    by (simp add: edit_try_def Let_def)
  show ?thesis
    by (simp add: h r edit_settle_def edit_begin_def catch_message_def)
qed

theorem handleEdit_outcome_witness:
  "snd (handleEdit good_capability mockup_shown) =
     [EditImage (Some ''TU9DS1VQ'') ''image/png'' ''add a retro filter''] \<and>
   good_capability (Some ''TU9DS1VQ'') ''image/png'' ''add a retro filter'' =
     Inr ''data:image/png;base64,TU9DS1VQ'' \<and>
   generatedImage (fst (handleEdit good_capability mockup_shown)) =
     Some ''data:image/png;base64,TU9DS1VQ'' \<and>
   editPrompt (fst (handleEdit good_capability mockup_shown)) = [] \<and>
   status (fst (handleEdit good_capability mockup_shown)) = Success \<and>
   snd (handleEdit bad_capability mockup_shown) =
     [EditImage (Some ''TU9DS1VQ'') ''image/png'' ''add a retro filter''] \<and>
   bad_capability (Some ''TU9DS1VQ'') ''image/png'' ''add a retro filter'' =
     Inl (JsError ''The model is overloaded.'') \<and>
   editPrompt (fst (handleEdit bad_capability mockup_shown)) = ''add a retro filter'' \<and>
   error (fst (handleEdit bad_capability mockup_shown)) = Some ''The model is overloaded.'' \<and>
   status (fst (handleEdit bad_capability mockup_shown)) = Error"
proof -
  have g: "snd (handleEdit good_capability mockup_shown) =
     [EditImage (Some ''TU9DS1VQ'') ''image/png'' ''add a retro filter'']"
    and b: "snd (handleEdit bad_capability mockup_shown) =
     [EditImage (Some ''TU9DS1VQ'') ''image/png'' ''add a retro filter'']"
    by (simp_all add: handleEdit_def edit_try_def Let_def startsWith_def js_split_def sample_defs)
  have rg: "good_capability (Some ''TU9DS1VQ'') ''image/png'' ''add a retro filter'' =
     Inr ''data:image/png;base64,TU9DS1VQ''"
    and rb: "bad_capability (Some ''TU9DS1VQ'') ''image/png'' ''add a retro filter'' =
     Inl (JsError ''The model is overloaded.'')"
    by (simp_all add: good_capability_def bad_capability_def)
  have ep: "editPrompt mockup_shown = ''add a retro filter''"
    by (simp add: sample_defs)
  from handleEdit_outcome [OF g] handleEdit_outcome [OF b] g b rg rb ep
  show ?thesis by (simp add: catch_message_def)
qed

text \<open>
  C9. An edit request that passes line 73 calls \<open>editImage\<close> once; the media type it
  passes is \<open>image/jpeg\<close> when the current generated image starts with
  \<open>data:image/jpeg\<close> and \<open>image/png\<close> in every other case. The payload it passes is
  the part of the image string between its first and second comma.
\<close>

theorem handleEdit_mimeType:
  assumes "generatedImage s = Some current" and "current \<noteq> []" and "editPrompt s \<noteq> []"
  shows "snd (handleEdit editImage s) =
           [EditImage (index1 (js_split current CHR '',''))
              (if startsWith current ''data:image/jpeg'' then ''image/jpeg'' else ''image/png'')
              (editPrompt s)]"
  using assms by (simp add: handleEdit_def edit_try_def Let_def)

theorem handleEdit_mimeType_witness:
  "generatedImage jpeg_shown = Some ''data:image/jpeg;base64,/9j/4AAQ'' \<and>
   editPrompt jpeg_shown \<noteq> [] \<and>
   startsWith ''data:image/jpeg;base64,/9j/4AAQ'' ''data:image/jpeg'' \<and>
   snd (handleEdit good_capability jpeg_shown) =
     [EditImage (Some ''/9j/4AAQ'') ''image/jpeg'' ''add a retro filter''] \<and>
   generatedImage mockup_shown = Some ''data:image/png;base64,TU9DS1VQ'' \<and>
   editPrompt mockup_shown \<noteq> [] \<and>
   \<not> startsWith ''data:image/png;base64,TU9DS1VQ'' ''data:image/jpeg'' \<and>
   snd (handleEdit good_capability mockup_shown) =
     [EditImage (Some ''TU9DS1VQ'') ''image/png'' ''add a retro filter'']"
proof -
  have j: "generatedImage jpeg_shown = Some ''data:image/jpeg;base64,/9j/4AAQ''"
    and p: "generatedImage mockup_shown = Some ''data:image/png;base64,TU9DS1VQ''"
    and ej: "editPrompt jpeg_shown = ''add a retro filter''"
    and ep: "editPrompt mockup_shown = ''add a retro filter''"
    by (simp_all add: sample_defs)
  have sj: "startsWith ''data:image/jpeg;base64,/9j/4AAQ'' ''data:image/jpeg''"
    and sp: "\<not> startsWith ''data:image/png;base64,TU9DS1VQ'' ''data:image/jpeg''"
    by (simp_all add: startsWith_def)
  have bj: "index1 (js_split ''data:image/jpeg;base64,/9j/4AAQ'' CHR '','') = Some ''/9j/4AAQ''"
    and bp: "index1 (js_split ''data:image/png;base64,TU9DS1VQ'' CHR '','') = Some ''TU9DS1VQ''"
    by (simp_all add: js_split_def)
  from handleEdit_mimeType [OF j, of good_capability] handleEdit_mimeType [OF p, of good_capability]
  show ?thesis by (simp add: j p ej ep sj sp bj bp)
qed

subsection \<open>What a failed request leaves behind\<close>

text \<open>
  C2, as the code has it. A request fails either at its validation (lines 46 and 73) or
  in its \<^verbatim>\<open>catch\<close> branch, when the body of its \<^verbatim>\<open>try\<close> has thrown. A request turned
  down by validation changes the error message only. A failed edit changes the status and
  the error message only, so the generated image it worked on is still there. A generate
  request that passed validation has reset the generated image at line 53 before anything
  could fail: after its failure the generated image is absent, and the logo, its preview,
  the description and the edit instruction are as before.
\<close>

theorem failed_request_frame:
  "(generate_rejected s \<longrightarrow>
      fst (handleGenerate reader generateImage s) =
        s\<lparr>error := Some ''Please upload a logo and provide a product description.''\<rparr>) \<and>
   (logo s = Some f \<and> productDescription s \<noteq> [] \<and>
    fst (generate_try reader generateImage f (productDescription s)) = Inl e \<longrightarrow>
      fst (handleGenerate reader generateImage s) =
        s\<lparr>status := Error, error := Some (catch_message e), generatedImage := None\<rparr>) \<and>
   (edit_rejected s \<longrightarrow>
      fst (handleEdit editImage s) =
        s\<lparr>error := Some ''Please generate an image and provide an edit prompt.''\<rparr>) \<and>
   (generatedImage s = Some current \<and> current \<noteq> [] \<and> editPrompt s \<noteq> [] \<and>
    fst (edit_try editImage current (editPrompt s)) = Inl e' \<longrightarrow>
      fst (handleEdit editImage s) = s\<lparr>status := Error, error := Some (catch_message e')\<rparr>)"
proof -
  have g1: "generate_rejected s \<longrightarrow>
      fst (handleGenerate reader generateImage s) =
        s\<lparr>error := Some ''Please upload a logo and provide a product description.''\<rparr>"
    by (auto simp: generate_rejected_def handleGenerate_def split: option.splits)
  have g2: "logo s = Some f \<and> productDescription s \<noteq> [] \<and>
    fst (generate_try reader generateImage f (productDescription s)) = Inl e \<longrightarrow>
      fst (handleGenerate reader generateImage s) =
        s\<lparr>status := Error, error := Some (catch_message e), generatedImage := None\<rparr>"
    by (auto simp: handleGenerate_def generate_settle_def generate_begin_def split: prod.splits)
  have e1: "edit_rejected s \<longrightarrow>
      fst (handleEdit editImage s) =
        s\<lparr>error := Some ''Please generate an image and provide an edit prompt.''\<rparr>"
    by (auto simp: edit_rejected_def handleEdit_def split: option.splits)
  have e2: "generatedImage s = Some current \<and> current \<noteq> [] \<and> editPrompt s \<noteq> [] \<and>
    fst (edit_try editImage current (editPrompt s)) = Inl e' \<longrightarrow>
      fst (handleEdit editImage s) = s\<lparr>status := Error, error := Some (catch_message e')\<rparr>"
    by (auto simp: handleEdit_def edit_settle_def edit_begin_def split: prod.splits)
  from g1 g2 e1 e2 show ?thesis by blast
qed

theorem failed_request_frame_witness:
  "generate_rejected initial_state \<and>
   fst (handleGenerate good_reader good_capability initial_state) =
     initial_state\<lparr>error := Some ''Please upload a logo and provide a product description.''\<rparr> \<and>
   logo mockup_shown = Some png_file \<and> productDescription mockup_shown \<noteq> [] \<and>
   fst (generate_try good_reader bad_capability png_file (productDescription mockup_shown)) =
     Inl (JsError ''The model is overloaded.'') \<and>
   fst (handleGenerate good_reader bad_capability mockup_shown) =
     mockup_shown\<lparr>status := Error, error := Some ''The model is overloaded.'',
                   generatedImage := None\<rparr> \<and>
   edit_rejected png_chosen \<and>
   fst (handleEdit good_capability png_chosen) =
     png_chosen\<lparr>error := Some ''Please generate an image and provide an edit prompt.''\<rparr> \<and>
   generatedImage mockup_shown = Some ''data:image/png;base64,TU9DS1VQ'' \<and>
   editPrompt mockup_shown \<noteq> [] \<and>
   fst (edit_try bad_capability ''data:image/png;base64,TU9DS1VQ'' (editPrompt mockup_shown)) =
     Inl (JsError ''The model is overloaded.'') \<and>
   fst (handleEdit bad_capability mockup_shown) =
     mockup_shown\<lparr>status := Error, error := Some ''The model is overloaded.''\<rparr>"
proof -
  have a: "generate_rejected initial_state"
    by (simp add: generate_rejected_def initial_state_def)
  have b: "logo mockup_shown = Some png_file \<and> productDescription mockup_shown \<noteq> [] \<and>
     fst (generate_try good_reader bad_capability png_file (productDescription mockup_shown)) =
       Inl (JsError ''The model is overloaded.'')"
    by (simp add: sample_defs generate_try_def fileToBase64_def getMimeType_def js_split_def)
  have c: "edit_rejected png_chosen"
    by (simp add: edit_rejected_def sample_defs)
  have d: "generatedImage mockup_shown = Some ''data:image/png;base64,TU9DS1VQ'' \<and>
     ''data:image/png;base64,TU9DS1VQ'' \<noteq> [] \<and>
     editPrompt mockup_shown \<noteq> [] \<and>
     fst (edit_try bad_capability ''data:image/png;base64,TU9DS1VQ'' (editPrompt mockup_shown)) =
       Inl (JsError ''The model is overloaded.'')"
    by (simp add: sample_defs edit_try_def Let_def)
  have m: "catch_message (JsError ''The model is overloaded.'') = ''The model is overloaded.''"
    by (simp add: catch_message_def)
  from failed_request_frame [of initial_state good_reader good_capability png_file NotAnError
      good_capability "[]" NotAnError] a
  have 1: "fst (handleGenerate good_reader good_capability initial_state) =
     initial_state\<lparr>error := Some ''Please upload a logo and provide a product description.''\<rparr>"
    by blast
  from failed_request_frame [of mockup_shown good_reader bad_capability png_file
      "JsError ''The model is overloaded.''" bad_capability
      "''data:image/png;base64,TU9DS1VQ''" "JsError ''The model is overloaded.''"] b d
  have 2: "fst (handleGenerate good_reader bad_capability mockup_shown) =
     mockup_shown\<lparr>status := Error,
                   error := Some (catch_message (JsError ''The model is overloaded.'')),
                   generatedImage := None\<rparr>"
    and 4: "fst (handleEdit bad_capability mockup_shown) =
     mockup_shown\<lparr>status := Error,
                   error := Some (catch_message (JsError ''The model is overloaded.''))\<rparr>"
    by blast+
  from failed_request_frame [of png_chosen good_reader good_capability png_file NotAnError
      good_capability "[]" NotAnError] c
  have 3: "fst (handleEdit good_capability png_chosen) =
     png_chosen\<lparr>error := Some ''Please generate an image and provide an edit prompt.''\<rparr>"
    by blast
  from a b c d 1 2 3 4 show ?thesis unfolding m by blast
qed

text \<open>
  C2 as stated fails: a mockup is on screen, the user asks for a new generation and the
  capability rejects; the request ends in status error and the mockup is gone.
\<close>

theorem failed_generate_clears_image_counterexample:
  "generatedImage mockup_shown = Some ''data:image/png;base64,TU9DS1VQ'' \<and>
   snd (handleGenerate good_reader bad_capability mockup_shown) =
     [GenerateImage (Some ''iVBORw0KGgo='') ''image/png'' ''a white t-shirt''] \<and>
   status (fst (handleGenerate good_reader bad_capability mockup_shown)) = Error \<and>
   error (fst (handleGenerate good_reader bad_capability mockup_shown)) =
     Some ''The model is overloaded.'' \<and>
   generatedImage (fst (handleGenerate good_reader bad_capability mockup_shown)) = None"
  by (simp add: sample_defs handleGenerate_def generate_try_def generate_settle_def
      generate_begin_def fileToBase64_def getMimeType_def js_split_def catch_message_def)

subsection \<open>One request at a time\<close>

text \<open>
  Run without another event in between, a click with the events of its promises is the
  handler run to its end, and a file selection with its read is \<open>handleLogoChange\<close>.
\<close>

lemma generate_try_prepare:
  "generate_try reader generateImage f d =
     (case generate_prepare (reader f) f d of
        Inl e \<Rightarrow> (Inl e, [])
      | Inr call \<Rightarrow>
          (case call of
             GenerateImage b m t \<Rightarrow> (generateImage b m t, [call])
           | EditImage b m t \<Rightarrow> (generateImage b m t, [call])))"
  by (simp add: generate_try_def generate_prepare_def fileToBase64_def
      split: sum.splits option.splits)

lemma edit_try_prepare:
  "snd (edit_try editImage current prompt) = [edit_prepare current prompt]"
  by (simp add: edit_try_def edit_prepare_def Let_def)

lemma no_request_no_task:
  assumes "requests \<sigma> = []" and "is_request t"
  shows "t \<notin> set (tasks \<sigma>)"
proof
  assume "t \<in> set (tasks \<sigma>)"
  with assms(2) have "t \<in> set (requests \<sigma>)" by (simp add: requests_def)
  with assms(1) show False by simp
qed

lemma run_generate:
  assumes "requests \<sigma> = []" and "logo (ui \<sigma>) = Some f" and "d = productDescription (ui \<sigma>)"
  shows "run [ClickGenerate, FileRead (GenerateRead f d) (reader f),
              CapabilitySettled GenerateAwait (fst (generate_try reader generateImage f d))] \<sigma> =
           (\<sigma>\<lparr>ui := fst (click_generate reader generateImage (ui \<sigma>))\<rparr>,
            snd (click_generate reader generateImage (ui \<sigma>)))"
proof -
  have a: "GenerateAwait \<notin> set (tasks \<sigma>)" and b: "GenerateRead f d \<notin> set (tasks \<sigma>)"
    using no_request_no_task [OF assms(1)] by simp_all
  show ?thesis
  proof (cases "generate_button_disabled (ui \<sigma>)")
    case True
    with a b show ?thesis by (simp add: click_generate_def)
  next
    case False
    then have ne: "productDescription (ui \<sigma>) \<noteq> []"
      by (simp add: generate_button_disabled_def)
    show ?thesis
    proof (cases "generate_prepare (reader f) f d")
      case (Inl e)
      with False assms(2,3) ne a show ?thesis
        by (simp add: click_generate_def handleGenerate_def start_generate_def file_read_def
            generate_try_prepare)
    next
      case (Inr call)
      with False assms(2,3) ne show ?thesis
        by (cases call)
          (simp_all add: click_generate_def handleGenerate_def start_generate_def file_read_def
            capability_settled_def generate_try_prepare)
    qed
  qed
qed

lemma run_edit:
  assumes "requests \<sigma> = []" and "generatedImage (ui \<sigma>) = Some current"
  shows "run [ClickApply,
              CapabilitySettled EditAwait
                (fst (edit_try editImage current (editPrompt (ui \<sigma>))))] \<sigma> =
           (\<sigma>\<lparr>ui := fst (click_apply editImage (ui \<sigma>))\<rparr>,
            snd (click_apply editImage (ui \<sigma>)))"
proof -
  have a: "EditAwait \<notin> set (tasks \<sigma>)"
    using no_request_no_task [OF assms(1)] by simp
  show ?thesis
  proof (cases "edit_controls_rendered (ui \<sigma>) \<and> \<not> apply_button_disabled (ui \<sigma>)")
    case False
    with a show ?thesis by (auto simp: click_apply_def)
  next
    case True
    with assms(2) have "current \<noteq> []" and "editPrompt (ui \<sigma>) \<noteq> []"
      by (simp_all add: edit_controls_rendered_def apply_button_disabled_def)
    moreover obtain r calls where et: "edit_try editImage current (editPrompt (ui \<sigma>)) = (r, calls)"
      by force
    moreover from et edit_try_prepare [of editImage current "editPrompt (ui \<sigma>)"]
    have "calls = [edit_prepare current (editPrompt (ui \<sigma>))]" by simp
    ultimately show ?thesis
      using True assms(2)
      by (simp add: click_apply_def handleEdit_def start_edit_def capability_settled_def)
  qed
qed

lemma run_logo:
  "run [SelectLogo (Some f), FileRead (PreviewRead f) (reader f)] \<sigma> =
     (\<sigma>\<lparr>ui := handleLogoChange reader (Some f) (ui \<sigma>)\<rparr>, [])"
  by (simp add: file_read_def handleLogoChange_def fileToBase64_def
      split: sum.splits reader_event.splits option.splits)

text \<open>
  The status after a request has begun and after it has settled, and the cells that
  \<open>isLoading\<close> does not read.
\<close>

lemma settle_not_loading:
  "\<not> isLoading (generate_settle r s)" "\<not> isLoading (edit_settle r s)"
  by (simp_all add: isLoading_def generate_settle_def edit_settle_def split: sum.splits)

lemma begin_loading: "isLoading (generate_begin s)" "isLoading (edit_begin s)"
  by (simp_all add: isLoading_def generate_begin_def edit_begin_def)

lemma isLoading_frame [simp]:
  "isLoading (s\<lparr>error := x\<rparr>) = isLoading s"
  "isLoading (s\<lparr>logo := l\<rparr>) = isLoading s"
  "isLoading (s\<lparr>logoPreview := p\<rparr>) = isLoading s"
  "isLoading (s\<lparr>generatedImage := g\<rparr>) = isLoading s"
  "isLoading (s\<lparr>productDescription := d\<rparr>) = isLoading s"
  "isLoading (s\<lparr>editPrompt := q\<rparr>) = isLoading s"
  by (simp_all add: isLoading_def)

text \<open>
  Where at most one request is among the tasks, a request found there is the only one,
  and none is left when it is removed. A preview read is no request.
\<close>

lemma only_request:
  assumes "length (filter is_request ts) \<le> 1" and "t \<in> set ts" and "is_request t"
  shows "filter is_request ts = [t]" and "filter is_request (remove1 t ts) = []"
proof -
  from assms(2,3) have m: "t \<in> set (filter is_request ts)" by simp
  with assms(1) show a: "filter is_request ts = [t]"
    by (cases "filter is_request ts") auto
  have "filter is_request (remove1 t ts) = remove1 t (filter is_request ts)"
    by (simp add: filter_remove1)
  with a show "filter is_request (remove1 t ts) = []" by simp
qed

lemma preview_not_request:
  "filter is_request (remove1 (PreviewRead f) ts) = filter is_request ts"
  by (induction ts) auto

text \<open>Every event keeps \<open>single_flight\<close>, and so does every sequence of events.\<close>

lemma single_flight_step:
  assumes "single_flight \<sigma>"
  shows "single_flight (fst (step ev \<sigma>))"
proof (cases ev)
  case ClickGenerate
  with assms show ?thesis
    by (auto simp: single_flight_def requests_def start_generate_def generate_button_disabled_def
        begin_loading split: option.splits)
next
  case ClickApply
  with assms show ?thesis
    by (auto simp: single_flight_def requests_def start_edit_def apply_button_disabled_def
        begin_loading split: option.splits)
next
  case (SelectLogo sel)
  with assms show ?thesis
    by (cases sel) (auto simp: single_flight_def requests_def)
next
  case (TypeDescription v)
  with assms show ?thesis by (auto simp: single_flight_def requests_def)
next
  case (TypeEditPrompt v)
  with assms show ?thesis by (auto simp: single_flight_def requests_def)
next
  case (FileRead t rd)
  show ?thesis
  proof (cases "t \<in> set (tasks \<sigma>)")
    case False
    with FileRead assms show ?thesis by simp
  next
    case True
    show ?thesis
    proof (cases t)
      case (PreviewRead f)
      with FileRead True assms show ?thesis
        by (auto simp: single_flight_def requests_def file_read_def preview_not_request
            split: sum.splits)
    next
      case (GenerateRead f d)
      from assms have le: "length (filter is_request (tasks \<sigma>)) \<le> 1"
        by (simp add: single_flight_def requests_def)
      from only_request [OF le True] GenerateRead
      have one: "filter is_request (tasks \<sigma>) = [t]"
        and none: "filter is_request (remove1 t (tasks \<sigma>)) = []"
        by simp_all
      from assms one have "isLoading (ui \<sigma>)"
        by (simp add: single_flight_def requests_def)
      with FileRead True GenerateRead none show ?thesis
        by (auto simp: single_flight_def requests_def file_read_def settle_not_loading
            split: sum.splits)
    next
      case GenerateAwait
      with FileRead True assms show ?thesis by (simp add: file_read_def)
    next
      case EditAwait
      with FileRead True assms show ?thesis by (simp add: file_read_def)
    qed
  qed
next
  case (CapabilitySettled t r)
  show ?thesis
  proof (cases "t \<in> set (tasks \<sigma>)")
    case False
    with CapabilitySettled assms show ?thesis by simp
  next
    case True
    from assms have le: "length (filter is_request (tasks \<sigma>)) \<le> 1"
      by (simp add: single_flight_def requests_def)
    show ?thesis
    proof (cases "is_invoked t")
      case False
      with CapabilitySettled True assms show ?thesis
        by (cases t) (simp_all add: capability_settled_def)
    next
      case inv: True
      then have "is_request t" by (cases t) simp_all
      from only_request(2) [OF le True this]
      have none: "filter is_request (remove1 t (tasks \<sigma>)) = []" .
      with CapabilitySettled True inv show ?thesis
        by (cases t) (simp_all add: single_flight_def requests_def capability_settled_def
            settle_not_loading)
    qed
  qed
qed

lemma single_flight_run:
  "single_flight \<sigma> \<Longrightarrow> single_flight (fst (run evs \<sigma>))"
proof (induction evs arbitrary: \<sigma>)
  case Nil
  then show ?case by simp
next
  case (Cons ev evs)
  from Cons.prems have "single_flight (fst (step ev \<sigma>))"
    by (rule single_flight_step)
  from Cons.IH [OF this] show ?case
    by simp
qed

lemma single_flight_initial: "single_flight initial_session"
  by (simp add: single_flight_def requests_def initial_session_def initial_state_def isLoading_def)


text \<open>While the status is generating or editing, the controls of the user start nothing.\<close>

lemma user_event_while_loading:
  assumes "isLoading (ui \<sigma>)" and "is_user_event ev"
  shows "snd (step ev \<sigma>) = []"
    and "status (ui (fst (step ev \<sigma>))) = status (ui \<sigma>)"
    and "requests (fst (step ev \<sigma>)) = requests \<sigma>"
proof -
  show "snd (step ev \<sigma>) = []"
    using assms
    by (cases "(ev, \<sigma>)" rule: step.cases)
      (auto simp: generate_button_disabled_def apply_button_disabled_def)
  show "status (ui (fst (step ev \<sigma>))) = status (ui \<sigma>)"
    using assms
    by (cases "(ev, \<sigma>)" rule: step.cases)
      (auto simp: generate_button_disabled_def apply_button_disabled_def)
  show "requests (fst (step ev \<sigma>)) = requests \<sigma>"
    using assms
    by (cases "(ev, \<sigma>)" rule: step.cases)
      (auto simp: generate_button_disabled_def apply_button_disabled_def requests_def)
qed

lemma click_while_loading:
  assumes "isLoading (ui \<sigma>)"
  shows "step ClickGenerate \<sigma> = (\<sigma>, [])" and "step ClickApply \<sigma> = (\<sigma>, [])"
  using assms by (simp_all add: generate_button_disabled_def apply_button_disabled_def)

text \<open>
  Only two events invoke a capability: a click on Apply while no request is under way,
  and the read of the logo for the one generate request under way.
\<close>

lemma invoked_subset: "filter is_invoked ts = filter is_invoked (filter is_request ts)"
proof -
  have "is_invoked t \<Longrightarrow> is_request t" for t by (cases t) simp_all
  then have "(is_request t \<and> is_invoked t) = is_invoked t" for t by blast
  then show ?thesis by simp
qed

lemma call_step:
  assumes "single_flight \<sigma>" and "snd (step ev \<sigma>) \<noteq> []"
  shows "invoked \<sigma> = []"
    and "length (snd (step ev \<sigma>)) = 1"
    and "length (invoked (fst (step ev \<sigma>))) = 1"
    and "isLoading (ui (fst (step ev \<sigma>)))"
proof -
  from assms(1) have le: "length (filter is_request (tasks \<sigma>)) \<le> 1"
    and ld: "isLoading (ui \<sigma>) = (filter is_request (tasks \<sigma>) \<noteq> [])"
    by (simp_all add: single_flight_def requests_def)
  consider (edit_started) "ev = ClickApply" "\<not> isLoading (ui \<sigma>)" "step ev \<sigma> = start_edit \<sigma>"
    | (read_done) f d rd where "ev = FileRead (GenerateRead f d) rd" "GenerateRead f d \<in> set (tasks \<sigma>)"
        "step ev \<sigma> = file_read (GenerateRead f d) rd \<sigma>"
  proof (cases ev)
    case ClickGenerate
    with assms(2) show ?thesis
      by (auto simp: start_generate_def split: option.splits if_splits)
  next
    case ClickApply
    with assms(2) that(1) show ?thesis
      by (auto simp: apply_button_disabled_def split: if_splits)
  next
    case (SelectLogo sel)
    with assms(2) show ?thesis by (cases sel) simp_all
  next
    case (TypeDescription v)
    with assms(2) show ?thesis by (simp split: if_splits)
  next
    case (TypeEditPrompt v)
    with assms(2) show ?thesis by (simp split: if_splits)
  next
    case (FileRead t rd)
    with assms(2) that(2) show ?thesis
      by (cases t) (auto simp: file_read_def split: if_splits sum.splits)
  next
    case (CapabilitySettled t r)
    with assms(2) show ?thesis
      by (cases t) (auto simp: capability_settled_def split: if_splits)
  qed
  then have "invoked \<sigma> = [] \<and> length (snd (step ev \<sigma>)) = 1 \<and>
      length (invoked (fst (step ev \<sigma>))) = 1 \<and> isLoading (ui (fst (step ev \<sigma>)))"
  proof cases
    case edit_started
    from edit_started(2) ld have none: "filter is_request (tasks \<sigma>) = []" by simp
    then have inv: "filter is_invoked (tasks \<sigma>) = []"
      using invoked_subset [of "tasks \<sigma>"] by simp
    from assms(2) edit_started(3) inv show ?thesis
      by (auto simp: invoked_def start_edit_def begin_loading split: option.splits if_splits)
  next
    case read_done
    from only_request [OF le read_done(2)]
    have one: "filter is_request (tasks \<sigma>) = [GenerateRead f d]"
      and none: "filter is_request (remove1 (GenerateRead f d) (tasks \<sigma>)) = []"
      by simp_all
    from one have inv: "filter is_invoked (tasks \<sigma>) = []"
      using invoked_subset [of "tasks \<sigma>"] by simp
    from none have inv': "filter is_invoked (remove1 (GenerateRead f d) (tasks \<sigma>)) = []"
      using invoked_subset [of "remove1 (GenerateRead f d) (tasks \<sigma>)"] by simp
    from one ld have "isLoading (ui \<sigma>)" by simp
    with assms(2) read_done(3) inv inv' show ?thesis
      by (auto simp: invoked_def file_read_def split: sum.splits)
  qed
  then show "invoked \<sigma> = []"
    and "length (snd (step ev \<sigma>)) = 1"
    and "length (invoked (fst (step ev \<sigma>))) = 1"
    and "isLoading (ui (fst (step ev \<sigma>)))"
    by simp_all
qed

text \<open>The status leaves generating and editing only when the request settles.\<close>

lemma loading_ends:
  assumes "single_flight \<sigma>" and "isLoading (ui \<sigma>)" and "\<not> isLoading (ui (fst (step ev \<sigma>)))"
  shows "status (ui (fst (step ev \<sigma>))) \<in> {Success, Error}"
    and "requests (fst (step ev \<sigma>)) = []"
proof -
  from assms(1) have "single_flight (fst (step ev \<sigma>))" by (rule single_flight_step)
  with assms(3) show "requests (fst (step ev \<sigma>)) = []"
    by (simp add: single_flight_def)
  show "status (ui (fst (step ev \<sigma>))) \<in> {Success, Error}"
  proof (cases "is_user_event ev")
    case True
    from user_event_while_loading(2) [OF assms(2) True] assms(2,3) show ?thesis
      by (simp add: isLoading_def)
  next
    case False
    then consider (fr) t rd where "ev = FileRead t rd" | (cs) t r where "ev = CapabilitySettled t r"
      by (cases ev) simp_all
    then show ?thesis
    proof cases
      case fr
      with assms(2,3) show ?thesis
        by (cases t) (auto simp: file_read_def generate_settle_def
            split: if_splits sum.splits)
    next
      case cs
      with assms(2,3) show ?thesis
        by (cases t) (auto simp: capability_settled_def generate_settle_def edit_settle_def
            split: if_splits sum.splits)
    qed
  qed
qed

text \<open>
  C3. In every session the component can reach from its initial state, by whatever
  events in whatever order: at most one request is under way, and the status is
  generating or editing exactly when one is. While it is, a click on Generate or on
  Apply changes nothing, and no event of the user, the choice of another logo included,
  invokes a capability, changes the status or touches the request. Whenever an event
  does invoke a capability, no invocation was awaited before it, exactly one call is
  made and exactly one is awaited after it. And the status leaves generating or editing
  only for success or error, with no request left: a next request begins only after
  the first has completed.
\<close>

theorem one_request_at_a_time:
  assumes "\<sigma> = fst (run evs initial_session)"
  shows "length (requests \<sigma>) \<le> 1 \<and>
         isLoading (ui \<sigma>) = (requests \<sigma> \<noteq> []) \<and>
         (isLoading (ui \<sigma>) \<longrightarrow>
            step ClickGenerate \<sigma> = (\<sigma>, []) \<and> step ClickApply \<sigma> = (\<sigma>, [])) \<and>
         (isLoading (ui \<sigma>) \<and> is_user_event ev \<longrightarrow>
            snd (step ev \<sigma>) = [] \<and>
            status (ui (fst (step ev \<sigma>))) = status (ui \<sigma>) \<and>
            requests (fst (step ev \<sigma>)) = requests \<sigma>) \<and>
         (snd (step ev \<sigma>) \<noteq> [] \<longrightarrow>
            invoked \<sigma> = [] \<and> length (snd (step ev \<sigma>)) = 1 \<and>
            length (invoked (fst (step ev \<sigma>))) = 1 \<and> isLoading (ui (fst (step ev \<sigma>)))) \<and>
         (isLoading (ui \<sigma>) \<and> \<not> isLoading (ui (fst (step ev \<sigma>))) \<longrightarrow>
            status (ui (fst (step ev \<sigma>))) \<in> {Success, Error} \<and>
            requests (fst (step ev \<sigma>)) = [])"
proof -
  from assms have sf: "single_flight \<sigma>"
    by (simp add: single_flight_run single_flight_initial)
  then have 1: "length (requests \<sigma>) \<le> 1" and 2: "isLoading (ui \<sigma>) = (requests \<sigma> \<noteq> [])"
    by (simp_all add: single_flight_def)
  note 3 = click_while_loading [of \<sigma>]
  note 4 = user_event_while_loading [of \<sigma> ev]
  note 5 = call_step [OF sf, of ev]
  note 6 = loading_ends [OF sf, of ev]
  from 1 2 3 4 5 6 show ?thesis by blast
qed

theorem one_request_at_a_time_witness:
  "generating_session =
     fst (run [SelectLogo (Some png_file), FileRead (PreviewRead png_file) (good_reader png_file),
               ClickGenerate] initial_session) \<and>
   isLoading (ui generating_session) \<and>
   requests generating_session = [GenerateRead png_file ''a white t-shirt''] \<and>
   step ClickGenerate generating_session = (generating_session, []) \<and>
   step ClickApply generating_session = (generating_session, []) \<and>
   is_user_event (SelectLogo (Some gif_file)) \<and>
   snd (step (SelectLogo (Some gif_file)) generating_session) = [] \<and>
   status (ui (fst (step (SelectLogo (Some gif_file)) generating_session))) = Generating \<and>
   snd (step (FileRead (GenerateRead png_file ''a white t-shirt'') (good_reader png_file))
          generating_session) =
     [GenerateImage (Some ''iVBORw0KGgo='') ''image/png'' ''a white t-shirt''] \<and>
   invoked generating_session = [] \<and>
   invoked (fst (step (FileRead (GenerateRead png_file ''a white t-shirt'') (good_reader png_file))
          generating_session)) = [GenerateAwait] \<and>
   \<not> isLoading (ui (fst (step (FileRead (GenerateRead png_file ''a white t-shirt'') OnError)
          generating_session))) \<and>
   status (ui (fst (step (FileRead (GenerateRead png_file ''a white t-shirt'') OnError)
          generating_session))) = Error"
proof -
  have r: "generating_session =
     fst (run [SelectLogo (Some png_file), FileRead (PreviewRead png_file) (good_reader png_file),
               ClickGenerate] initial_session)"
    by (simp add: generating_session_def initial_session_def sample_defs file_read_def
        fileToBase64_def js_split_def generate_button_disabled_def isLoading_def
        start_generate_def generate_begin_def)
  have l: "isLoading (ui generating_session)"
    by (simp add: generating_session_def begin_loading)
  have q: "requests generating_session = [GenerateRead png_file ''a white t-shirt'']"
    by (simp add: generating_session_def requests_def)
  have u: "is_user_event (SelectLogo (Some gif_file))" by simp
  have c: "snd (step (FileRead (GenerateRead png_file ''a white t-shirt'') (good_reader png_file))
          generating_session) =
     [GenerateImage (Some ''iVBORw0KGgo='') ''image/png'' ''a white t-shirt'']"
    by (simp add: generating_session_def file_read_def generate_prepare_def fileToBase64_def
        js_split_def getMimeType_def sample_defs)
  have i: "invoked (fst (step (FileRead (GenerateRead png_file ''a white t-shirt'')
          (good_reader png_file)) generating_session)) = [GenerateAwait]"
    by (simp add: generating_session_def file_read_def generate_prepare_def fileToBase64_def
        js_split_def getMimeType_def sample_defs invoked_def)
  have e: "\<not> isLoading (ui (fst (step (FileRead (GenerateRead png_file ''a white t-shirt'') OnError)
          generating_session)))"
    by (simp add: generating_session_def file_read_def generate_prepare_def fileToBase64_def
        settle_not_loading)
  have s: "status (ui generating_session) = Generating"
    by (simp add: generating_session_def generate_begin_def)
  note t = one_request_at_a_time [OF r]
  from t [of ClickGenerate] l
  have 1: "step ClickGenerate generating_session = (generating_session, [])"
    and 2: "step ClickApply generating_session = (generating_session, [])"
    by blast+
  from t [of "SelectLogo (Some gif_file)"] l u s
  have 3: "snd (step (SelectLogo (Some gif_file)) generating_session) = []"
    and 4: "status (ui (fst (step (SelectLogo (Some gif_file)) generating_session))) = Generating"
    by simp_all
  from t [of "FileRead (GenerateRead png_file ''a white t-shirt'') (good_reader png_file)"] c
  have 5: "invoked generating_session = []" by simp
  from t [of "FileRead (GenerateRead png_file ''a white t-shirt'') OnError"] l e
  have "status (ui (fst (step (FileRead (GenerateRead png_file ''a white t-shirt'') OnError)
          generating_session))) \<in> {Success, Error}"
    by blast
  moreover have "status (ui (fst (step (FileRead (GenerateRead png_file ''a white t-shirt'') OnError)
          generating_session))) \<noteq> Success"
    by (simp add: generating_session_def file_read_def generate_prepare_def fileToBase64_def
        generate_settle_def)
  ultimately have 6: "status (ui (fst (step (FileRead (GenerateRead png_file ''a white t-shirt'')
          OnError) generating_session))) = Error"
    by simp
  from r l q u c i e 1 2 3 4 5 6 show ?thesis by blast
qed

subsection \<open>Choosing a logo\<close>

text \<open>
  A selection event without file changes nothing. A file that can be read replaces the
  logo and its preview, resets the generated image and clears the error message; the
  description, the edit instruction and the status are not touched.
\<close>

lemma handleLogoChange_no_file: "handleLogoChange reader None s = s"
  by (simp add: handleLogoChange_def)

lemma handleLogoChange_read:
  "fileToBase64 reader f = Inr preview \<Longrightarrow>
   handleLogoChange reader (Some f) s =
     s\<lparr>logo := Some f, logoPreview := preview, generatedImage := None, error := None\<rparr>"
  by (simp add: handleLogoChange_def)

text \<open>
  C10 at a file whose read fails. After a failed edit the mockup and the failure's
  message are on screen; the user chooses a new WebP logo and the \<open>FileReader\<close> reports
  an error. The logo is replaced, but the awaited promise of line 38 rejects and lines 39 to
  41 never run: the generated image is not reset and the error message is not cleared.
\<close>

theorem handleLogoChange_read_failure:
  "generatedImage edit_failed = Some ''data:image/png;base64,TU9DS1VQ'' \<and>
   error edit_failed = Some ''The model is overloaded.'' \<and>
   fileToBase64 broken_reader webp_file = Inl NotAnError \<and>
   handleLogoChange broken_reader (Some webp_file) edit_failed =
     edit_failed\<lparr>logo := Some webp_file\<rparr> \<and>
   logo (handleLogoChange broken_reader (Some webp_file) edit_failed) = Some webp_file \<and>
   generatedImage (handleLogoChange broken_reader (Some webp_file) edit_failed) =
     Some ''data:image/png;base64,TU9DS1VQ'' \<and>
   error (handleLogoChange broken_reader (Some webp_file) edit_failed) =
     Some ''The model is overloaded.''"
  by (simp add: sample_defs handleLogoChange_def fileToBase64_def)

end
